theory Spec2Isabelle
  imports Main "HOL-Library.Word"
begin

section \<open>Bytes, Python strings and the library primitives the scripts call\<close>

text \<open>
  A Python \<open>bytes\<close> value is a list of 8-bit words. A Python \<open>str\<close> is a list of Unicode
  code points (natural numbers); the Chinese literals of the f-strings are not kept:
  each \<open>return\<close> of the parser is one constructor of a result datatype that carries the
  values the f-string interpolates.
\<close>

type_synonym byte = "8 word"
type_synonym bytes = "byte list"
type_synonym pystr = "nat list"

definition ascii :: "string \<Rightarrow> bytes" where
  \<comment> \<open>a bytes literal such as \<open>b'CL'\<close>\<close>
  "ascii s = map of_char s"

definition py_str :: "string \<Rightarrow> pystr" where
  \<comment> \<open>a str literal such as \<open>'CL'\<close>\<close>
  "py_str s = map of_char s"

definition ascii_only :: "string \<Rightarrow> bool" where
  "ascii_only s = list_all (\<lambda>c. of_char c < (128::nat)) s"

definition slice :: "'a list \<Rightarrow> nat \<Rightarrow> nat \<Rightarrow> 'a list" where
  \<comment> \<open>\<open>xs[a:b]\<close> for literal bounds \<open>0 \<le> a \<le> b\<close>: never raises, clips at the end\<close>
  "slice xs a b = take (b - a) (drop a xs)"

definition startswith :: "bytes \<Rightarrow> bytes \<Rightarrow> bool" where
  "startswith d p = (take (length p) d = p)"

definition hex_digit :: "nat \<Rightarrow> nat" where
  \<comment> \<open>code point of the lower-case hexadecimal digit\<close>
  "hex_digit n = (if n < 10 then 48 + n else 87 + n)"

definition hexlify :: "bytes \<Rightarrow> pystr" where
  \<comment> \<open>\<open>binascii.hexlify(data).decode()\<close>\<close>
  "hexlify d = concat (map (\<lambda>b. [hex_digit (unat b div 16), hex_digit (unat b mod 16)]) d)"

definition ascii_replace :: "bytes \<Rightarrow> pystr" where
  \<comment> \<open>\<open>bs.decode('ascii', errors='replace')\<close>: a byte above 0x7F becomes U+FFFD\<close>
  "ascii_replace bs = map (\<lambda>b. if b < 0x80 then unat b else 0xFFFD) bs"

definition is_cont :: "nat \<Rightarrow> bool" where
  "is_cont b = (0x80 \<le> b \<and> b \<le> 0xBF)"

text \<open>
  \<open>bs.decode('utf-8', errors='replace')\<close> as CPython decodes it: an invalid start byte
  is replaced alone, an invalid continuation replaces the bytes of the sequence read so
  far and decoding resumes at the offending byte, a sequence cut off by the end of the
  data is replaced as a whole. Overlong forms, surrogates and code points above U+10FFFF
  are invalid.
\<close>

definition utf8_step :: "nat \<Rightarrow> nat list \<Rightarrow> nat \<times> nat" where
  \<comment> \<open>the code point decoded at a lead byte \<open>b0\<close> followed by \<open>rest\<close>, and how many bytes
      of \<open>rest\<close> it consumes\<close>
  "utf8_step b0 rest =
    (if b0 < 0x80 then (b0, 0)
     else if b0 < 0xC2 then (0xFFFD, 0)
     else if b0 < 0xE0 then
       (case rest of
          [] \<Rightarrow> (0xFFFD, 0)
        | b1 # r1 \<Rightarrow>
            if is_cont b1 then ((b0 - 0xC0) * 64 + (b1 - 0x80), 1) else (0xFFFD, 0))
     else if b0 < 0xF0 then
       (case rest of
          [] \<Rightarrow> (0xFFFD, 0)
        | b1 # r1 \<Rightarrow>
            if is_cont b1 \<and> (if b1 < 0xA0 then b0 \<noteq> 0xE0 else b0 \<noteq> 0xED)
            then (case r1 of
                    [] \<Rightarrow> (0xFFFD, 1)
                  | b2 # r2 \<Rightarrow>
                      if is_cont b2
                      then ((b0 - 0xE0) * 4096 + (b1 - 0x80) * 64 + (b2 - 0x80), 2)
                      else (0xFFFD, 1))
            else (0xFFFD, 0))
     else if b0 < 0xF5 then
       (case rest of
          [] \<Rightarrow> (0xFFFD, 0)
        | b1 # r1 \<Rightarrow>
            if is_cont b1 \<and> (if b1 < 0x90 then b0 \<noteq> 0xF0 else b0 \<noteq> 0xF4)
            then (case r1 of
                    [] \<Rightarrow> (0xFFFD, 1)
                  | b2 # r2 \<Rightarrow>
                      if is_cont b2
                      then (case r2 of
                              [] \<Rightarrow> (0xFFFD, 2)
                            | b3 # r3 \<Rightarrow>
                                if is_cont b3
                                then ((b0 - 0xF0) * 262144 + (b1 - 0x80) * 4096
                                      + (b2 - 0x80) * 64 + (b3 - 0x80), 3)
                                else (0xFFFD, 2))
                      else (0xFFFD, 1))
            else (0xFFFD, 0))
     else (0xFFFD, 0))"

fun utf8_dec :: "nat list \<Rightarrow> pystr" where
  "utf8_dec [] = []"
| "utf8_dec (b0 # rest) =
     (case utf8_step b0 rest of (cp, k) \<Rightarrow> cp # utf8_dec (drop k rest))"

definition utf8_replace :: "bytes \<Rightarrow> pystr" where
  "utf8_replace bs = utf8_dec (map unat bs)"

subsection \<open>struct.pack and struct.unpack\<close>

datatype exn = StructError

definition le_uint :: "bytes \<Rightarrow> int" where
  \<comment> \<open>the unsigned little-endian value of a byte string\<close>
  "le_uint bs = foldr (\<lambda>b acc. uint b + 256 * acc) bs 0"

definition le_int32 :: "bytes \<Rightarrow> int" where
  \<comment> \<open>four bytes read as a two's complement little-endian integer\<close>
  "le_int32 bs = (let u = le_uint bs in if u < 2 ^ 31 then u else u - 2 ^ 32)"

definition unpack_i :: "bytes \<Rightarrow> exn + int" where
  \<comment> \<open>\<open>struct.unpack('<i', bs)[0]\<close>: struct.error unless the buffer has exactly 4 bytes\<close>
  "unpack_i bs = (if length bs = 4 then Inr (le_int32 bs) else Inl StructError)"

definition int32_le :: "int \<Rightarrow> bytes" where
  \<comment> \<open>the four bytes of a value, least significant first\<close>
  "int32_le x = [word_of_int x, word_of_int (x div 256),
                 word_of_int (x div 65536), word_of_int (x div 16777216)]"

definition fits_int32 :: "int \<Rightarrow> bool" where
  "fits_int32 x = (- (2 ^ 31) \<le> x \<and> x < 2 ^ 31)"

definition pack_i :: "int \<Rightarrow> exn + bytes" where
  \<comment> \<open>\<open>struct.pack('<i', x)\<close>: struct.error when \<open>x\<close> does not fit 32 signed bits\<close>
  "pack_i x = (if fits_int32 x then Inr (int32_le x) else Inl StructError)"

definition pack_iii :: "int \<Rightarrow> int \<Rightarrow> int \<Rightarrow> exn + bytes" where
  \<comment> \<open>\<open>struct.pack('<iii', a, b, c)\<close>\<close>
  "pack_iii a b c =
     (case pack_i a of
        Inl e \<Rightarrow> Inl e
      | Inr x \<Rightarrow>
          (case pack_i b of
             Inl e \<Rightarrow> Inl e
           | Inr y \<Rightarrow>
               (case pack_i c of
                  Inl e \<Rightarrow> Inl e
                | Inr z \<Rightarrow> Inr (x @ y @ z))))"

section \<open>Command encoders (lane\_change\_test.py)\<close>

definition create_lane_change_command :: "int \<Rightarrow> int \<Rightarrow> int \<Rightarrow> exn + bytes" where
  \<comment> \<open>\<open>return b'CL' + struct.pack('<iii', agent_id, direction, mode)\<close>; the same
      expression builds \<open>command_data\<close> in \<open>send_lane_change_command\<close> of
      udp\_specific\_test.py\<close>
  "create_lane_change_command agent_id direction mode =
     (case pack_iii agent_id direction mode of
        Inl e \<Rightarrow> Inl e
      | Inr packed \<Rightarrow> Inr (ascii ''CL'' @ packed))"

definition create_assigned_lane_change_command ::
  "('f \<Rightarrow> exn + bytes) \<Rightarrow> int \<Rightarrow> int \<Rightarrow> int \<Rightarrow> 'f \<Rightarrow> exn + bytes" where
  \<comment> \<open>\<open>return b'CAL' + struct.pack('<iiif', agent_id, direction, mode, distance)\<close>.
      Floating point is not modelled: \<open>pack_f\<close> is the library's packing of a float
      into four bytes, a parameter here. The three integers are range-checked first,
      as \<open>struct.pack\<close> converts its arguments in order.\<close>
  "create_assigned_lane_change_command pack_f agent_id direction mode distance =
     (case pack_iii agent_id direction mode of
        Inl e \<Rightarrow> Inl e
      | Inr packed \<Rightarrow>
          (case pack_f distance of
             Inl e \<Rightarrow> Inl e
           | Inr fb \<Rightarrow> Inr (ascii ''CAL'' @ packed @ fb)))"

definition create_start_simulation_command :: bytes where
  "create_start_simulation_command = ascii ''CS''"

definition create_stop_simulation_command :: bytes where
  "create_stop_simulation_command = ascii ''CP''"

subsection \<open>The command line of lane\_change\_test.py\<close>

text \<open>
  \<open>main\<close> declares \<open>--direction\<close> and \<open>--mode\<close> with \<open>type=int, choices=[0, 1]\<close>:
  \<open>parse_args\<close> ends the program with an argument error when a given value is not among
  the choices, before any command is built. \<open>--agent\<close> is \<open>type=int\<close> without choices.
  The arguments are modelled after their conversion to \<open>int\<close>. The \<open>main\<close> of
  udp\_specific\_test.py declares \<open>--dir\<close> and \<open>--mode\<close> the same way.
\<close>

datatype cli_error = ArgumentError | Raised exn

definition main_command ::
  "('f \<Rightarrow> exn + bytes) \<Rightarrow> int \<Rightarrow> int \<Rightarrow> int \<Rightarrow> 'f option \<Rightarrow> cli_error + bytes" where
  \<comment> \<open>the lane-change command \<open>main\<close> sends for \<open>--agent\<close>, \<open>--direction\<close>, \<open>--mode\<close>
      and the optional \<open>--distance\<close>; both of its branches (\<open>--no-listen\<close> and
      \<open>run_lane_change_test\<close>) build it the same way. An exception of the encoder is
      not caught.\<close>
  "main_command pack_f agent direction mode distance =
     (if direction \<in> set [0, 1] \<and> mode \<in> set [0, 1] then
        (case (case distance of
                 Some dist \<Rightarrow>
                   create_assigned_lane_change_command pack_f agent direction mode dist
               | None \<Rightarrow> create_lane_change_command agent direction mode) of
           Inl e \<Rightarrow> Inl (Raised e)
         | Inr command \<Rightarrow> Inr command)
      else Inl ArgumentError)"

section \<open>The frame parser (udp\_receiver.py)\<close>

text \<open>
  One constructor per \<open>return\<close> of \<open>parse_resim_data\<close>, in the order of the source, with
  the values its f-string shows. Where the f-string shows only a choice between two
  words (\<open>'left' if direction==0 else 'right'\<close>), the constructor carries the boolean.
\<close>

datatype sim_status = Stopped | Running | Paused | UnknownStatus int

datatype parse_result =
    PacketTooShort pystr              \<comment> \<open>hex\_data\<close>
  | SyncSignal pystr                  \<comment> \<open>prefix3\<close>
  | VehicleState pystr nat            \<comment> \<open>prefix3, len(data)\<close>
  | TestString pystr                  \<comment> \<open>the whole frame as UTF-8 text\<close>
  | AgentPosition nat                 \<comment> \<open>len(data)\<close>
  | AgentState nat
  | TrafficSignal nat
  | CounterTest int pystr             \<comment> \<open>counter, message\<close>
  | CounterTestRaw pystr              \<comment> \<open>the handler of the TSPY branch\<close>
  | SimStatus sim_status
  | SimStatusUnparsed pystr           \<comment> \<open>the handler of the SS branch\<close>
  | SimStatusSize nat
  | LaneChangeCommand int bool bool   \<comment> \<open>agent\_id, direction == 0, mode == 0\<close>
  | CLParseError exn pystr            \<comment> \<open>the handler of the CL branch\<close>
  | LaneChangeResponse int bool int   \<comment> \<open>agent\_id, result == 1, reason\<close>
  | RLParseError exn pystr            \<comment> \<open>the handler of the RL branch\<close>
  | StartSimulation
  | PauseSimulation
  | ResumeSimulation
  | ResimCommand pystr pystr          \<comment> \<open>prefix2, hex\_data\<close>
  | Unrecognized pystr nat pystr      \<comment> \<open>prefix4, len(data), hex\_data[:60]\<close>
  | ParseError exn pystr              \<comment> \<open>the handler of the outer \<open>try\<close>\<close>

definition status_str :: "int \<Rightarrow> sim_status" where
  \<comment> \<open>\<open>{0: ..., 1: ..., 2: ...}.get(status, unknown(status))\<close>\<close>
  "status_str status =
     (if status = 0 then Stopped else if status = 1 then Running
      else if status = 2 then Paused else UnknownStatus status)"

definition parse_tspy :: "bytes \<Rightarrow> parse_result" where
  \<comment> \<open>the body of the \<open>data.startswith(b'TSPY')\<close> branch: a \<open>try\<close> whose handler
      shows the text after the prefix\<close>
  "parse_tspy d =
     (case unpack_i (slice d 4 8) of
        Inr counter \<Rightarrow> CounterTest counter (utf8_replace (drop 8 d))
      | Inl e \<Rightarrow> CounterTestRaw (utf8_replace (drop 4 d)))"

definition parse_ss :: "bytes \<Rightarrow> pystr \<Rightarrow> parse_result" where
  "parse_ss d hex_data =
     (if 6 \<le> length d then
        (case unpack_i (slice d 2 6) of
           Inr status \<Rightarrow> SimStatus (status_str status)
         | Inl e \<Rightarrow> SimStatusUnparsed hex_data)
      else SimStatusSize (length d))"

definition parse_cl :: "bytes \<Rightarrow> pystr \<Rightarrow> parse_result" where
  "parse_cl d hex_data =
     (case unpack_i (slice d 2 6) of
        Inl e \<Rightarrow> CLParseError e hex_data
      | Inr agent_id \<Rightarrow>
          (case unpack_i (slice d 6 10) of
             Inl e \<Rightarrow> CLParseError e hex_data
           | Inr direction \<Rightarrow>
               (case unpack_i (slice d 10 14) of
                  Inl e \<Rightarrow> CLParseError e hex_data
                | Inr mode \<Rightarrow> LaneChangeCommand agent_id (direction = 0) (mode = 0))))"

definition parse_rl :: "bytes \<Rightarrow> pystr \<Rightarrow> parse_result" where
  "parse_rl d hex_data =
     (case unpack_i (slice d 2 6) of
        Inl e \<Rightarrow> RLParseError e hex_data
      | Inr agent_id \<Rightarrow>
          (case unpack_i (slice d 6 10) of
             Inl e \<Rightarrow> RLParseError e hex_data
           | Inr result \<Rightarrow>
               (case unpack_i (slice d 10 14) of
                  Inl e \<Rightarrow> RLParseError e hex_data
                | Inr reason \<Rightarrow> LaneChangeResponse agent_id (result = 1) reason)))"

text \<open>
  The \<open>try\<close> block of \<open>parse_resim_data\<close>. Its statements outside the inner \<open>try\<close>
  blocks (\<open>hexlify\<close>, \<open>len\<close>, slices, \<open>decode\<close> with \<open>errors='replace'\<close>, comparisons)
  do not raise, so every path ends in a \<open>return\<close>: the result is \<open>Inr\<close>. The handlers of
  the \<open>try\<close> around the three prefix decodings and around the \<open>TEST_\<close> decoding guard
  calls that cannot raise and have no branch here. The local variables \<open>prefix2\<close>,
  \<open>prefix3\<close> and \<open>prefix4\<close> are functions of the frame.
\<close>

definition prefix2 :: "bytes \<Rightarrow> pystr" where
  "prefix2 d = ascii_replace (slice d 0 2)"

definition prefix3 :: "bytes \<Rightarrow> pystr" where
  "prefix3 d = (if 3 \<le> length d then ascii_replace (slice d 0 3) else prefix2 d)"

definition prefix4 :: "bytes \<Rightarrow> pystr" where
  "prefix4 d = (if 4 \<le> length d then ascii_replace (slice d 0 4) else prefix3 d)"

definition parse_body :: "bytes \<Rightarrow> exn + parse_result" where
  "parse_body d =
     (let hex_data = hexlify d in
      if length d < 2 then Inr (PacketTooShort hex_data)
      else if prefix3 d = py_str ''RSd'' then
        (if length d = 3 then Inr (SyncSignal (prefix3 d))
         else Inr (VehicleState (prefix3 d) (length d)))
      else if startswith d (ascii ''TEST_'') then Inr (TestString (utf8_replace d))
      else if prefix2 d = py_str ''AP'' then Inr (AgentPosition (length d))
      else if prefix2 d = py_str ''AS'' then Inr (AgentState (length d))
      else if prefix2 d = py_str ''TS'' then Inr (TrafficSignal (length d))
      else if startswith d (ascii ''TSPY'') then Inr (parse_tspy d)
      else if prefix2 d = py_str ''SS'' then Inr (parse_ss d hex_data)
      else if prefix2 d = py_str ''CL'' \<and> 14 \<le> length d then Inr (parse_cl d hex_data)
      else if prefix2 d = py_str ''RL'' \<and> 14 \<le> length d then Inr (parse_rl d hex_data)
      else if prefix2 d = py_str ''CS'' then Inr StartSimulation
      else if prefix2 d = py_str ''CP'' then Inr PauseSimulation
      else if prefix2 d = py_str ''CR'' then Inr ResumeSimulation
      else if prefix2 d \<in> set (map py_str [''RS'', ''RP'', ''RQ'', ''CC''])
        then Inr (ResimCommand (prefix2 d) hex_data)
      else Inr (Unrecognized (prefix4 d) (length d) (take 60 hex_data)))"

definition parse_resim_data :: "bytes \<Rightarrow> parse_result" where
  \<comment> \<open>the \<open>try\<close> block under its handler \<open>except Exception as e\<close>\<close>
  "parse_resim_data d =
     (case parse_body d of
        Inr info \<Rightarrow> info
      | Inl e \<Rightarrow> ParseError e (take 60 (hexlify d)))"

fun handler_result :: "parse_result \<Rightarrow> bool" where
  \<comment> \<open>the results that only an \<open>except\<close> handler returns\<close>
  "handler_result (CounterTestRaw _) = True"
| "handler_result (SimStatusUnparsed _) = True"
| "handler_result (CLParseError _ _) = True"
| "handler_result (RLParseError _ _) = True"
| "handler_result (ParseError _ _) = True"
| "handler_result _ = False"

definition registered_prefixes :: "bytes list" where
  \<comment> \<open>the prefixes the chain of \<open>parse_resim_data\<close> tests, in its order\<close>
  "registered_prefixes = map ascii
     [''RSd'', ''TEST_'', ''AP'', ''AS'', ''TS'', ''TSPY'', ''SS'', ''CL'', ''RL'',
      ''CS'', ''CP'', ''CR'', ''RS'', ''RP'', ''RQ'', ''CC'']"

section \<open>The listener and its statistics (udp\_receiver.py)\<close>

text \<open>
  The global \<open>stats\<close> dictionary is a record, threaded through the loop. Time stamps and
  sender addresses are type parameters. One received datagram is handled by
  \<open>handle_datagram\<close>, the body of the \<open>while\<close> loop of \<open>udp_listener\<close> up to the update
  of \<open>command_counts\<close>; the console line and the log file that follow read the state
  and do not change it. A \<open>socket.timeout\<close> leaves the state as it is.
\<close>

record ('t, 'a) command_record =
  cmd_time :: 't
  cmd_port :: nat
  cmd_from :: 'a
  cmd_data :: pystr
  cmd_info :: parse_result

record ('t, 'a) stats =
  total_packets :: nat
  last_packet_time :: "'t option"
  command_counts :: "pystr \<rightharpoonup> nat"
  last_commands :: "('t, 'a) command_record list"

definition initial_stats :: "('t, 'a) stats" where
  "initial_stats =
     \<lparr>total_packets = 0, last_packet_time = None, command_counts = Map.empty,
      last_commands = []\<rparr>"

definition get_count :: "(pystr \<rightharpoonup> nat) \<Rightarrow> pystr \<Rightarrow> nat" where
  \<comment> \<open>\<open>stats['command_counts'].get(cmd_type, 0)\<close>\<close>
  "get_count m k = (case m k of None \<Rightarrow> 0 | Some c \<Rightarrow> c)"

definition handle_datagram ::
  "'t \<Rightarrow> nat \<Rightarrow> 'a \<Rightarrow> bytes \<Rightarrow> ('t, 'a) stats \<Rightarrow> ('t, 'a) stats" where
  "handle_datagram now port addr d st =
     (let st1 = st\<lparr>total_packets := total_packets st + 1, last_packet_time := Some now\<rparr>;
          info = parse_resim_data d;
          cmds = last_commands st1 @
                 [\<lparr>cmd_time = now, cmd_port = port, cmd_from = addr,
                   cmd_data = hexlify d, cmd_info = info\<rparr>];
          st2 = st1\<lparr>last_commands :=
                  (if 100 < length cmds then drop (length cmds - 100) cmds else cmds)\<rparr>
      in if 2 \<le> length d then
           let cmd_type = ascii_replace (slice d 0 2)
           in st2\<lparr>command_counts :=
                   (command_counts st2)(cmd_type \<mapsto> get_count (command_counts st2) cmd_type + 1)\<rparr>
         else st2)"

datatype ('t, 'a) received = Timeout | Datagram 't 'a bytes

fun udp_listener ::
  "nat \<Rightarrow> ('t, 'a) received list \<Rightarrow> ('t, 'a) stats \<Rightarrow> ('t, 'a) stats" where
  \<comment> \<open>the loop, over what \<open>recvfrom\<close> gave while \<open>running\<close> was set\<close>
  "udp_listener port [] st = st"
| "udp_listener port (Timeout # evs) st = udp_listener port evs st"
| "udp_listener port (Datagram now addr d # evs) st =
     udp_listener port evs (handle_datagram now port addr d st)"

fun datagrams :: "('t, 'a) received list \<Rightarrow> nat" where
  \<comment> \<open>how many datagrams the loop received\<close>
  "datagrams [] = 0"
| "datagrams (Timeout # evs) = datagrams evs"
| "datagrams (Datagram now addr d # evs) = Suc (datagrams evs)"

section \<open>Facts about the primitives\<close>

lemma unat_byte_of_nat: "n < 256 \<Longrightarrow> unat (of_nat n :: byte) = n"
  by (simp add: unat_of_nat)

lemma byte_ascii_eq:
  fixes b :: byte
  assumes "n < 128"
  shows "((if b < 0x80 then unat b else 0xFFFD) = n) = (b = of_nat n)"
proof -
  have n: "unat (of_nat n :: byte) = n" using assms by (simp add: unat_byte_of_nat)
  show ?thesis
  proof (cases "b < 0x80")
    case True
    then show ?thesis using n by (auto simp: word_unat_eq_iff)
  next
    case False
    from n assms have "(of_nat n :: byte) < 0x80" by (simp add: word_less_nat_alt)
    with False assms show ?thesis by auto
  qed
qed

lemma ascii_replace_eq:
  "ascii_only s \<Longrightarrow> (ascii_replace bs = py_str s) = (bs = ascii s)"
proof (induction bs arbitrary: s)
  case Nil
  then show ?case by (auto simp: ascii_replace_def py_str_def ascii_def)
next
  case (Cons b bs)
  show ?case
  proof (cases s)
    case Nil
    then show ?thesis by (simp add: ascii_replace_def py_str_def ascii_def)
  next
    case (Cons c cs)
    with Cons.prems have c: "of_char c < (128::nat)" and cs: "ascii_only cs"
      by (simp_all add: ascii_only_def)
    have "(of_nat (of_char c) :: byte) = of_char c" by (simp add: of_nat_of_char)
    with byte_ascii_eq [OF c, of b] Cons.IH [OF cs] Cons show ?thesis
      by (simp add: ascii_replace_def py_str_def ascii_def)
  qed
qed

lemma length_ascii [simp]: "length (ascii s) = length s" by (simp add: ascii_def)
lemma length_ascii_replace [simp]: "length (ascii_replace bs) = length bs" by (simp add: ascii_replace_def)
lemma length_py_str [simp]: "length (py_str s) = length s" by (simp add: py_str_def)

lemma prefix2_eq:
  assumes "ascii_only s" and "length s = 2"
  shows "(prefix2 d = py_str s) = startswith d (ascii s)"
  using assms by (simp add: prefix2_def slice_def startswith_def ascii_replace_eq)

lemma prefix3_eq:
  assumes "ascii_only s" and "length s = 3"
  shows "(prefix3 d = py_str s) = startswith d (ascii s)"
proof (cases "3 \<le> length d")
  case True
  with assms show ?thesis
    by (simp add: prefix3_def slice_def startswith_def ascii_replace_eq)
next
  case False
  then have "length (prefix3 d) \<noteq> length (py_str s)" "length (take 3 d) \<noteq> length (ascii s)"
    using assms by (simp_all add: prefix3_def prefix2_def slice_def)
  then show ?thesis using assms unfolding startswith_def by (metis length_ascii)
qed

lemma prefix4_take: "prefix4 d = ascii_replace (take 4 d)"
  by (simp add: prefix4_def prefix3_def prefix2_def slice_def)

lemma length_hexlify: "length (hexlify d) = 2 * length d"
  by (induction d) (simp_all add: hexlify_def)

lemma startswith_append: "startswith d (p @ q) \<Longrightarrow> startswith d p"
proof -
  assume "startswith d (p @ q)"
  then have "take (length p + length q) d = p @ q" by (simp add: startswith_def)
  then have "take (length p) (take (length p + length q) d) = p" by simp
  then show ?thesis by (simp add: startswith_def min_def)
qed

lemma uint_byte_of_int: "uint (word_of_int x :: byte) = x mod 256"
  by (simp add: uint_word_of_int)

lemma le_uint_int32_le: "le_uint (int32_le x) = x mod 4294967296"
proof -
  have a: "x mod 4294967296 = x mod 256 + 256 * (x div 256 mod 16777216)"
    using zmod_zmult2_eq [of 16777216 x 256] by simp
  have b: "x div 256 mod 16777216 = x div 256 mod 256 + 256 * (x div 256 div 256 mod 65536)"
    using zmod_zmult2_eq [of 65536 "x div 256" 256] by simp
  have c: "x div 256 div 256 mod 65536
         = x div 256 div 256 mod 256 + 256 * (x div 256 div 256 div 256 mod 256)"
    using zmod_zmult2_eq [of 256 "x div 256 div 256" 256] by simp
  have d: "x div 65536 = x div 256 div 256" "x div 16777216 = x div 256 div 256 div 256"
    by (simp_all add: zdiv_zmult2_eq [symmetric])
  have h: "le_uint (int32_le x) =
      x mod 256 + 256 * (x div 256 mod 256 + 256 * (x div 256 div 256 mod 256
        + 256 * (x div 256 div 256 div 256 mod 256)))"
    unfolding le_uint_def int32_le_def foldr.simps comp_def id_def uint_byte_of_int d
    by (simp only: mult_zero_right add_0_right)
  show ?thesis unfolding h a b c by (rule refl)
qed

lemma le_int32_int32_le:
  assumes "fits_int32 x"
  shows "le_int32 (int32_le x) = x"
proof (cases "0 \<le> x")
  case True
  with assms have "x mod 4294967296 = x" by (simp add: fits_int32_def)
  with assms show ?thesis by (simp add: le_int32_def le_uint_int32_le fits_int32_def)
next
  case False
  with assms have r: "0 \<le> x + 4294967296" "x + 4294967296 < 4294967296"
    by (simp_all add: fits_int32_def)
  have "x mod 4294967296 = (x + 4294967296) mod 4294967296" by simp
  also have "\<dots> = x + 4294967296" using r by (rule mod_pos_pos_trivial)
  finally have "x mod 4294967296 = x + 4294967296" .
  with assms False show ?thesis
    by (simp add: Let_def le_int32_def le_uint_int32_le fits_int32_def)
qed

lemma length_int32_le [simp]: "length (int32_le x) = 4"
  by (simp add: int32_le_def)

lemma unpack_i_int32_le: "fits_int32 x \<Longrightarrow> unpack_i (int32_le x) = Inr x"
  by (simp add: unpack_i_def le_int32_int32_le)

lemma unpack_i_slice:
  "b = a + 4 \<Longrightarrow> b \<le> length d \<Longrightarrow> unpack_i (slice d a b) = Inr (le_int32 (slice d a b))"
  by (simp add: unpack_i_def slice_def)

lemma pack_iii_fits:
  "fits_int32 a \<Longrightarrow> fits_int32 b \<Longrightarrow> fits_int32 c \<Longrightarrow>
   pack_iii a b c = Inr (int32_le a @ int32_le b @ int32_le c)"
  by (simp add: pack_iii_def pack_i_def)

section \<open>The chain of prefix tests\<close>

lemma ascii_only_literals:
  "ascii_only ''RSd''" "ascii_only ''AP''" "ascii_only ''AS''" "ascii_only ''TS''"
  "ascii_only ''SS''" "ascii_only ''CL''" "ascii_only ''RL''" "ascii_only ''CS''"
  "ascii_only ''CP''" "ascii_only ''CR''" "ascii_only ''RS''" "ascii_only ''RP''"
  "ascii_only ''RQ''" "ascii_only ''CC''"
  by (simp_all add: ascii_only_def)

lemmas prefix_tests =
  prefix3_eq [of "''RSd''"] prefix2_eq [of "''AP''"] prefix2_eq [of "''AS''"]
  prefix2_eq [of "''TS''"] prefix2_eq [of "''SS''"] prefix2_eq [of "''CL''"]
  prefix2_eq [of "''RL''"] prefix2_eq [of "''CS''"] prefix2_eq [of "''CP''"]
  prefix2_eq [of "''CR''"] prefix2_eq [of "''RS''"] prefix2_eq [of "''RP''"]
  prefix2_eq [of "''RQ''"] prefix2_eq [of "''CC''"]

lemma startswith_Cons:
  "startswith d (a # p) = (\<exists>rest. d = a # rest \<and> startswith rest p)"
  by (cases d) (auto simp: startswith_def)

lemma ascii_literals:
  "ascii ''RSd'' = [0x52, 0x53, 0x64]" "ascii ''TEST_'' = [0x54, 0x45, 0x53, 0x54, 0x5F]"
  "ascii ''AP'' = [0x41, 0x50]" "ascii ''AS'' = [0x41, 0x53]" "ascii ''TS'' = [0x54, 0x53]"
  "ascii ''TSPY'' = [0x54, 0x53, 0x50, 0x59]" "ascii ''SS'' = [0x53, 0x53]"
  "ascii ''CL'' = [0x43, 0x4C]" "ascii ''RL'' = [0x52, 0x4C]" "ascii ''CS'' = [0x43, 0x53]"
  "ascii ''CP'' = [0x43, 0x50]" "ascii ''CR'' = [0x43, 0x52]" "ascii ''RS'' = [0x52, 0x53]"
  "ascii ''RP'' = [0x52, 0x50]" "ascii ''RQ'' = [0x52, 0x51]" "ascii ''CC'' = [0x43, 0x43]"
  by (simp_all add: ascii_def)

lemma prefix_test_bytes:
  "(prefix3 d = py_str ''RSd'') = startswith d [0x52, 0x53, 0x64]"
  "(prefix2 d = py_str ''AP'') = startswith d [0x41, 0x50]"
  "(prefix2 d = py_str ''AS'') = startswith d [0x41, 0x53]"
  "(prefix2 d = py_str ''TS'') = startswith d [0x54, 0x53]"
  "(prefix2 d = py_str ''SS'') = startswith d [0x53, 0x53]"
  "(prefix2 d = py_str ''CL'') = startswith d [0x43, 0x4C]"
  "(prefix2 d = py_str ''RL'') = startswith d [0x52, 0x4C]"
  "(prefix2 d = py_str ''CS'') = startswith d [0x43, 0x53]"
  "(prefix2 d = py_str ''CP'') = startswith d [0x43, 0x50]"
  "(prefix2 d = py_str ''CR'') = startswith d [0x43, 0x52]"
  "(prefix2 d = py_str ''RS'') = startswith d [0x52, 0x53]"
  "(prefix2 d = py_str ''RP'') = startswith d [0x52, 0x50]"
  "(prefix2 d = py_str ''RQ'') = startswith d [0x52, 0x51]"
  "(prefix2 d = py_str ''CC'') = startswith d [0x43, 0x43]"
  by (simp_all add: prefix_tests ascii_only_literals flip: ascii_literals)

lemma other_prefix_test:
  "(prefix2 d \<in> set (map py_str [''RS'', ''RP'', ''RQ'', ''CC''])) =
   (startswith d [0x52, 0x53] \<or> startswith d [0x52, 0x50] \<or> startswith d [0x52, 0x51]
    \<or> startswith d [0x43, 0x43])"
  by (simp add: prefix_test_bytes)

text \<open>The chain of tests, on the bytes of the frame.\<close>

lemma parse_body_chain:
  "parse_body d =
     (if length d < 2 then Inr (PacketTooShort (hexlify d))
      else if startswith d [0x52, 0x53, 0x64] then
        (if length d = 3 then Inr (SyncSignal (prefix3 d))
         else Inr (VehicleState (prefix3 d) (length d)))
      else if startswith d [0x54, 0x45, 0x53, 0x54, 0x5F] then Inr (TestString (utf8_replace d))
      else if startswith d [0x41, 0x50] then Inr (AgentPosition (length d))
      else if startswith d [0x41, 0x53] then Inr (AgentState (length d))
      else if startswith d [0x54, 0x53] then Inr (TrafficSignal (length d))
      else if startswith d [0x54, 0x53, 0x50, 0x59] then Inr (parse_tspy d)
      else if startswith d [0x53, 0x53] then Inr (parse_ss d (hexlify d))
      else if startswith d [0x43, 0x4C] \<and> 14 \<le> length d then Inr (parse_cl d (hexlify d))
      else if startswith d [0x52, 0x4C] \<and> 14 \<le> length d then Inr (parse_rl d (hexlify d))
      else if startswith d [0x43, 0x53] then Inr StartSimulation
      else if startswith d [0x43, 0x50] then Inr PauseSimulation
      else if startswith d [0x43, 0x52] then Inr ResumeSimulation
      else if startswith d [0x52, 0x53] \<or> startswith d [0x52, 0x50]
              \<or> startswith d [0x52, 0x51] \<or> startswith d [0x43, 0x43]
        then Inr (ResimCommand (prefix2 d) (hexlify d))
      else Inr (Unrecognized (ascii_replace (take 4 d)) (length d) (take 60 (hexlify d))))"
  unfolding parse_body_def Let_def
  by (simp only: prefix_test_bytes other_prefix_test prefix4_take ascii_literals)

lemma tspy_starts_ts: "startswith d [0x54, 0x53, 0x50, 0x59] \<Longrightarrow> startswith d [0x54, 0x53]"
  using startswith_append [of d "[0x54, 0x53]" "[0x50, 0x59]"] by simp

lemma startswith_length: "startswith d p \<Longrightarrow> length p \<le> length d"
  unfolding startswith_def by (metis length_take min.cobounded1)

lemma tspy_frame_is_traffic_signal:
  assumes "startswith d [0x54, 0x53, 0x50, 0x59]"
  shows "parse_resim_data d = TrafficSignal (length d)"
proof -
  from assms have ts: "startswith d [0x54, 0x53]" by (rule tspy_starts_ts)
  from assms have len: "4 \<le> length d" using startswith_length by fastforce
  from ts have no: "\<not> startswith d [0x52, 0x53, 0x64]" "\<not> startswith d [0x54, 0x45, 0x53, 0x54, 0x5F]"
    "\<not> startswith d [0x41, 0x50]" "\<not> startswith d [0x41, 0x53]"
    by (auto simp: startswith_Cons)
  show ?thesis
    using ts no len by (simp add: parse_resim_data_def parse_body_chain)
qed

lemma parse_ss_no_handler: "\<not> handler_result (parse_ss d h)"
  by (simp add: parse_ss_def unpack_i_slice)

lemma parse_cl_no_handler: "14 \<le> length d \<Longrightarrow> \<not> handler_result (parse_cl d h)"
  by (simp add: parse_cl_def unpack_i_slice)

lemma parse_rl_no_handler: "14 \<le> length d \<Longrightarrow> \<not> handler_result (parse_rl d h)"
  by (simp add: parse_rl_def unpack_i_slice)

lemma not_registered:
  "(\<not> list_ex (startswith d) registered_prefixes) =
   (\<not> startswith d [0x52, 0x53, 0x64] \<and> \<not> startswith d [0x54, 0x45, 0x53, 0x54, 0x5F]
    \<and> \<not> startswith d [0x41, 0x50] \<and> \<not> startswith d [0x41, 0x53]
    \<and> \<not> startswith d [0x54, 0x53] \<and> \<not> startswith d [0x54, 0x53, 0x50, 0x59]
    \<and> \<not> startswith d [0x53, 0x53] \<and> \<not> startswith d [0x43, 0x4C]
    \<and> \<not> startswith d [0x52, 0x4C] \<and> \<not> startswith d [0x43, 0x53]
    \<and> \<not> startswith d [0x43, 0x50] \<and> \<not> startswith d [0x43, 0x52]
    \<and> \<not> startswith d [0x52, 0x53] \<and> \<not> startswith d [0x52, 0x50]
    \<and> \<not> startswith d [0x52, 0x51] \<and> \<not> startswith d [0x43, 0x43])"
  unfolding registered_prefixes_def list.map ascii_literals by simp

lemma sw_eval: "startswith (a # d) (b # p) = (a = b \<and> startswith d p)" "startswith d [] = True"
  "startswith [] (b # p) = False"
  by (auto simp: startswith_def)

lemma create_lane_change_command_cases:
  "create_lane_change_command a d m =
     (if fits_int32 a \<and> fits_int32 d \<and> fits_int32 m
      then Inr ([0x43, 0x4C] @ int32_le a @ int32_le d @ int32_le m)
      else Inl StructError)"
  by (simp add: create_lane_change_command_def pack_iii_def pack_i_def ascii_def)

lemma fits_choice: "v \<in> {0, 1} \<Longrightarrow> fits_int32 v"
  by (auto simp: fits_int32_def)

lemma handle_datagram_total:
  "total_packets (handle_datagram now port addr d st) = total_packets st + 1"
  by (simp add: handle_datagram_def Let_def)

lemma handle_datagram_command_counts:
  "command_counts (handle_datagram now port addr d st) =
     (if 2 \<le> length d
      then (command_counts st)(ascii_replace (take 2 d) \<mapsto>
             get_count (command_counts st) (ascii_replace (take 2 d)) + 1)
      else command_counts st)"
  by (simp add: handle_datagram_def Let_def slice_def)

lemma udp_listener_total:
  "total_packets (udp_listener port evs st) = total_packets st + datagrams evs"
  by (induction port evs st rule: udp_listener.induct) (simp_all add: handle_datagram_total)

lemma rsd_key: "startswith d [0x52, 0x53, 0x64] \<Longrightarrow> ascii_replace (take 2 d) = py_str ''RS''"
  by (auto simp: startswith_Cons ascii_replace_def py_str_def)

lemma tspy_key: "startswith d [0x54, 0x53, 0x50, 0x59] \<Longrightarrow> ascii_replace (take 2 d) = py_str ''TS''"
  by (auto simp: startswith_Cons ascii_replace_def py_str_def)

lemma rsd_frame:
  assumes "startswith d [0x52, 0x53, 0x64]"
  shows "parse_resim_data d =
     (if length d = 3 then SyncSignal (py_str ''RSd'') else VehicleState (py_str ''RSd'') (length d))"
proof -
  from assms have "3 \<le> length d" using startswith_length by fastforce
  moreover from assms have "prefix3 d = py_str ''RSd''" by (simp add: prefix_test_bytes)
  ultimately show ?thesis using assms by (simp add: parse_resim_data_def parse_body_chain)
qed

section \<open>Encoding\<close>

text \<open>
  C1. For every agent id, direction and mode that are 32-bit signed integers,
  \<open>create_lane_change_command\<close> returns the two bytes of \<open>"CL"\<close> followed by the three
  values in the order agent id, direction, mode, each as four little-endian bytes (the
  bytes that \<open>struct.unpack('<i', ...)\<close> reads back as the value). At 10, 0, 1 these
  are the fourteen bytes 43 4C 0A 00 00 00 00 00 00 00 01 00 00 00.
\<close>

theorem create_lane_change_command_layout:
  assumes "fits_int32 agent_id" and "fits_int32 direction" and "fits_int32 mode"
  shows "create_lane_change_command agent_id direction mode =
           Inr ([0x43, 0x4C] @ int32_le agent_id @ int32_le direction @ int32_le mode)
         \<and> unpack_i (int32_le agent_id) = Inr agent_id
         \<and> unpack_i (int32_le direction) = Inr direction
         \<and> unpack_i (int32_le mode) = Inr mode"
  using assms
  by (simp add: create_lane_change_command_def pack_iii_fits unpack_i_int32_le ascii_def)

theorem create_lane_change_command_layout_witness:
  "fits_int32 10 \<and> fits_int32 0 \<and> fits_int32 1
   \<and> create_lane_change_command 10 0 1 =
       Inr [0x43, 0x4C, 0x0A, 0, 0, 0, 0, 0, 0, 0, 1, 0, 0, 0]"
proof -
  have f: "fits_int32 10" "fits_int32 0" "fits_int32 1"
    by (simp_all add: fits_int32_def)
  from create_lane_change_command_layout [OF f] f show ?thesis
    by (simp add: int32_le_def)
qed

text \<open>
  C8, as the code has it. The encoders do not look at what direction and mode mean:
  \<open>create_lane_change_command\<close> and \<open>create_assigned_lane_change_command\<close> fail, with
  the \<open>struct.error\<close> of \<open>struct.pack\<close> and before any byte exists, exactly when one of
  the three integers does not fit 32 signed bits, and otherwise pack the values as given,
  direction and mode outside 0 and 1 included. A value of \<open>--direction\<close> or \<open>--mode\<close>
  outside 0 and 1 is refused by the command line of \<open>main\<close>, before the encoder is
  called; with both among the choices the command is built, and fails only for an agent
  id that does not fit.
\<close>

theorem lane_change_encoders_check_only_int32:
  "create_lane_change_command a d m =
     (if fits_int32 a \<and> fits_int32 d \<and> fits_int32 m
      then Inr ([0x43, 0x4C] @ int32_le a @ int32_le d @ int32_le m)
      else Inl StructError)
   \<and> create_assigned_lane_change_command pack_f a d m dist =
     (if fits_int32 a \<and> fits_int32 d \<and> fits_int32 m
      then (case pack_f dist of
              Inl e \<Rightarrow> Inl e
            | Inr fb \<Rightarrow> Inr ([0x43, 0x41, 0x4C] @ int32_le a @ int32_le d @ int32_le m @ fb))
      else Inl StructError)
   \<and> main_command pack_f a d m None =
     (if d \<in> {0, 1} \<and> m \<in> {0, 1}
      then (if fits_int32 a then Inr ([0x43, 0x4C] @ int32_le a @ int32_le d @ int32_le m)
            else Inl (Raised StructError))
      else Inl ArgumentError)"
proof -
  have "create_assigned_lane_change_command pack_f a d m dist =
     (if fits_int32 a \<and> fits_int32 d \<and> fits_int32 m
      then (case pack_f dist of
              Inl e \<Rightarrow> Inl e
            | Inr fb \<Rightarrow> Inr ([0x43, 0x41, 0x4C] @ int32_le a @ int32_le d @ int32_le m @ fb))
      else Inl StructError)"
    by (simp add: create_assigned_lane_change_command_def pack_iii_def pack_i_def ascii_def
        split: sum.splits)
  moreover have "main_command pack_f a d m None =
     (if d \<in> {0, 1} \<and> m \<in> {0, 1}
      then (if fits_int32 a then Inr ([0x43, 0x4C] @ int32_le a @ int32_le d @ int32_le m)
            else Inl (Raised StructError))
      else Inl ArgumentError)"
    using fits_choice [of d] fits_choice [of m]
    by (auto simp: main_command_def create_lane_change_command_cases)
  ultimately show ?thesis
    by (simp only: create_lane_change_command_cases simp_thms)
qed

theorem lane_change_encoders_check_only_int32_witness:
  "create_lane_change_command 10 1 2 = Inr [0x43, 0x4C, 10, 0, 0, 0, 1, 0, 0, 0, 2, 0, 0, 0]
   \<and> create_lane_change_command 10 1 4294967296 = Inl StructError
   \<and> create_assigned_lane_change_command (\<lambda>u :: unit. Inr [0, 0, 0x48, 0x42]) 10 (- 1) 0 () =
       Inr [0x43, 0x41, 0x4C, 10, 0, 0, 0, 0xFF, 0xFF, 0xFF, 0xFF, 0, 0, 0, 0, 0, 0, 0x48, 0x42]
   \<and> main_command (\<lambda>u :: unit. Inr [0, 0, 0x48, 0x42]) 10 1 2 None = Inl ArgumentError
   \<and> main_command (\<lambda>u :: unit. Inr [0, 0, 0x48, 0x42]) 10 1 0 None =
       Inr [0x43, 0x4C, 10, 0, 0, 0, 1, 0, 0, 0, 0, 0, 0, 0]"
proof -
  let ?f = "\<lambda>u :: unit. Inr [0, 0, 0x48, 0x42] :: exn + bytes"
  from lane_change_encoders_check_only_int32 [of 10 1 2 ?f "()"]
  have a: "create_lane_change_command 10 1 2 =
             Inr [0x43, 0x4C, 10, 0, 0, 0, 1, 0, 0, 0, 2, 0, 0, 0]"
    and b: "main_command ?f 10 1 2 None = Inl ArgumentError"
    by (simp_all add: fits_int32_def int32_le_def)
  from lane_change_encoders_check_only_int32 [of 10 1 4294967296 ?f "()"]
  have c: "create_lane_change_command 10 1 4294967296 = Inl StructError"
    by (simp add: fits_int32_def)
  from lane_change_encoders_check_only_int32 [of 10 "- 1" 0 ?f "()"]
  have d: "create_assigned_lane_change_command ?f 10 (- 1) 0 () =
       Inr [0x43, 0x41, 0x4C, 10, 0, 0, 0, 0xFF, 0xFF, 0xFF, 0xFF, 0, 0, 0, 0, 0, 0, 0x48, 0x42]"
    by (simp add: fits_int32_def int32_le_def)
  from lane_change_encoders_check_only_int32 [of 10 1 0 ?f "()"]
  have e: "main_command ?f 10 1 0 None = Inr [0x43, 0x4C, 10, 0, 0, 0, 1, 0, 0, 0, 0, 0, 0, 0]"
    by (simp add: fits_int32_def int32_le_def)
  from a b c d e show ?thesis by simp
qed

text \<open>
  The claim as stated fails: direction 5 and mode 7 are packed onto the wire.
\<close>

theorem out_of_range_direction_is_packed:
  "create_lane_change_command 10 5 7 = Inr [0x43, 0x4C, 10, 0, 0, 0, 5, 0, 0, 0, 7, 0, 0, 0]"
  by (simp add: create_lane_change_command_cases fits_int32_def int32_le_def)

section \<open>Decoding\<close>

text \<open>
  C2, as the code has it. A frame that starts with \<open>"CL"\<close> and is shorter than 14 bytes
  fails the guard \<open>len(data) >= 14\<close> of the CL branch and of no later branch, and falls
  through to the last \<open>return\<close>: the result is the unrecognised-data message with the
  first four bytes (or fewer) as prefix, the length and the whole hex text; no handler
  runs and the result is not the packet-too-short message.
\<close>

theorem cl_short_frame_unrecognized:
  assumes "startswith d [0x43, 0x4C]" and "length d < 14"
  shows "parse_resim_data d = Unrecognized (ascii_replace (take 4 d)) (length d) (hexlify d)"
proof -
  from assms(1) have no: "\<not> startswith d [0x52, 0x53, 0x64]" "\<not> startswith d [0x54, 0x45, 0x53, 0x54, 0x5F]"
    "\<not> startswith d [0x41, 0x50]" "\<not> startswith d [0x41, 0x53]" "\<not> startswith d [0x54, 0x53]"
    "\<not> startswith d [0x54, 0x53, 0x50, 0x59]" "\<not> startswith d [0x53, 0x53]" "\<not> startswith d [0x52, 0x4C]"
    "\<not> startswith d [0x43, 0x53]" "\<not> startswith d [0x43, 0x50]" "\<not> startswith d [0x43, 0x52]"
    "\<not> startswith d [0x52, 0x53]" "\<not> startswith d [0x52, 0x50]" "\<not> startswith d [0x52, 0x51]"
    "\<not> startswith d [0x43, 0x43]"
    by (auto simp: startswith_Cons)
  from assms(1) have len: "2 \<le> length d" using startswith_length by fastforce
  have "take 60 (hexlify d) = hexlify d" using assms(2) by (simp add: length_hexlify)
  then show ?thesis
    using assms no len by (simp add: parse_resim_data_def parse_body_chain)
qed

theorem cl_short_frame_unrecognized_witness:
  "startswith [0x43, 0x4C, 0x0A, 0, 0, 0] [0x43, 0x4C]
   \<and> length [0x43 :: byte, 0x4C, 0x0A, 0, 0, 0] < 14
   \<and> parse_resim_data [0x43, 0x4C, 0x0A, 0, 0, 0] =
       Unrecognized [67, 76, 10, 0] 6 (py_str ''434c0a000000'')"
proof -
  have a: "startswith [0x43, 0x4C, 0x0A, 0, 0, 0] [0x43, 0x4C]" by (simp add: sw_eval)
  have b: "length [0x43 :: byte, 0x4C, 0x0A, 0, 0, 0] < 14" by simp
  from cl_short_frame_unrecognized [OF a b] a b show ?thesis
    by (simp add: ascii_replace_def hexlify_def hex_digit_def py_str_def)
qed

text \<open>
  The claim as stated fails at the two bytes 43 4C: the result is the unrecognised-data
  message, not the packet-too-short one.
\<close>

theorem cl_two_bytes_not_too_short:
  "parse_resim_data [0x43, 0x4C] = Unrecognized (py_str ''CL'') 2 (py_str ''434c'')
   \<and> parse_resim_data [0x43, 0x4C] \<noteq> PacketTooShort (hexlify [0x43, 0x4C])"
  by (simp add: parse_resim_data_def parse_body_chain sw_eval ascii_replace_def hexlify_def
      hex_digit_def py_str_def)

text \<open>
  C3. The chain does not test the longest prefix first: the two-byte test
  \<open>prefix2 == 'TS'\<close> stands before \<open>data.startswith(b'TSPY')\<close>, so every frame that
  starts with \<open>"TSPY"\<close> is answered by the TS branch, as traffic signal data of its
  length. The TSPY branch is never reached.
\<close>

theorem tspy_frame_decoded_by_ts_branch:
  assumes "startswith d [0x54, 0x53, 0x50, 0x59]"
  shows "parse_resim_data d = TrafficSignal (length d)"
  using assms by (rule tspy_frame_is_traffic_signal)

theorem tspy_frame_decoded_by_ts_branch_witness:
  "startswith (ascii ''TSPY'' @ int32_le 1 @ ascii ''Hello from debug sender'')
     [0x54, 0x53, 0x50, 0x59]
   \<and> parse_resim_data (ascii ''TSPY'' @ int32_le 1 @ ascii ''Hello from debug sender'') =
       TrafficSignal 31"
proof -
  have a: "startswith (ascii ''TSPY'' @ int32_le 1 @ ascii ''Hello from debug sender'')
     [0x54, 0x53, 0x50, 0x59]"
    by (simp add: ascii_def sw_eval)
  from tspy_frame_decoded_by_ts_branch [OF a] a show ?thesis
    by (simp add: ascii_def)
qed

text \<open>
  C4. On a frame that starts with \<open>"TSPY"\<close> and has at least 8 bytes, the body of the
  TSPY branch would give the counter read from bytes 4 to 8 and the text decoded from the
  rest, but \<open>parse_resim_data\<close> returns the traffic signal message of the TS branch
  instead.
\<close>

theorem tspy_layout_never_applied:
  assumes "startswith d [0x54, 0x53, 0x50, 0x59]" and "8 \<le> length d"
  shows "parse_tspy d = CounterTest (le_int32 (slice d 4 8)) (utf8_replace (drop 8 d))
         \<and> parse_resim_data d = TrafficSignal (length d)
         \<and> parse_resim_data d \<noteq> parse_tspy d"
  using assms tspy_frame_is_traffic_signal [of d]
  by (simp add: parse_tspy_def unpack_i_slice)

theorem tspy_layout_never_applied_witness:
  "startswith (ascii ''TSPY'' @ int32_le 2 @ ascii ''Continuous test message #2'')
     [0x54, 0x53, 0x50, 0x59]
   \<and> 8 \<le> length (ascii ''TSPY'' @ int32_le 2 @ ascii ''Continuous test message #2'')
   \<and> parse_tspy (ascii ''TSPY'' @ int32_le 2 @ ascii ''Continuous test message #2'') =
       CounterTest 2 (py_str ''Continuous test message #2'')
   \<and> parse_resim_data (ascii ''TSPY'' @ int32_le 2 @ ascii ''Continuous test message #2'') =
       TrafficSignal 34"
proof -
  have a: "startswith (ascii ''TSPY'' @ int32_le 2 @ ascii ''Continuous test message #2'')
     [0x54, 0x53, 0x50, 0x59]"
    by (simp add: ascii_def sw_eval)
  have b: "8 \<le> length (ascii ''TSPY'' @ int32_le 2 @ ascii ''Continuous test message #2'')"
    by simp
  have c: "le_int32 (slice (ascii ''TSPY'' @ int32_le 2 @ ascii ''Continuous test message #2'') 4 8) = 2"
    by (simp add: slice_def ascii_def int32_le_def le_int32_def le_uint_def)
  have d: "utf8_replace (drop 8 (ascii ''TSPY'' @ int32_le 2 @ ascii ''Continuous test message #2''))
      = py_str ''Continuous test message #2''"
    by (simp add: ascii_def int32_le_def utf8_replace_def utf8_step_def py_str_def)
  from tspy_layout_never_applied [OF a b] a b show ?thesis
    unfolding c d by (simp add: ascii_def)
qed

text \<open>
  C5. \<open>parse_resim_data\<close> returns a result on every byte string, the empty one included:
  the \<open>try\<close> block ends in a \<open>return\<close> on every path, and the result is never one that
  only an \<open>except\<close> handler produces, so no \<open>struct.unpack\<close> is given a buffer of the
  wrong size and no exception is raised at all.
\<close>

theorem parse_resim_data_total:
  "\<exists>info. parse_body d = Inr info \<and> parse_resim_data d = info \<and> \<not> handler_result info"
  using tspy_starts_ts [of d]
  by (auto simp: parse_resim_data_def parse_body_chain parse_ss_no_handler parse_cl_no_handler
      parse_rl_no_handler)

theorem parse_resim_data_total_witness:
  "parse_body [] = Inr (PacketTooShort []) \<and> parse_resim_data [0xFF] = PacketTooShort (py_str ''ff'')
   \<and> \<not> handler_result (parse_resim_data [0x53, 0x53, 0x01])"
proof -
  from parse_resim_data_total [of "[]"] have a: "parse_body [] = Inr (PacketTooShort [])"
    by (simp add: parse_body_chain hexlify_def)
  from parse_resim_data_total [of "[0xFF]"]
  have b: "parse_resim_data [0xFF] = PacketTooShort (py_str ''ff'')"
    by (simp add: parse_resim_data_def parse_body_chain hexlify_def hex_digit_def py_str_def)
  from parse_resim_data_total [of "[0x53, 0x53, 0x01]"]
  have c: "\<not> handler_result (parse_resim_data [0x53, 0x53, 0x01])"
    by auto
  from a b c show ?thesis by simp
qed

text \<open>
  C6, as the code has it. A frame of at least 2 bytes that starts with none of the
  prefixes the chain tests is answered by the last \<open>return\<close>: the unrecognised-data
  message with the first four bytes (or fewer) as prefix, the length, and the first 60
  characters of the hex text, that is the first 30 bytes. The hex text is whole exactly
  when the frame has at most 30 bytes.
\<close>

theorem no_prefix_frame_unrecognized:
  assumes "2 \<le> length d" and "\<not> list_ex (startswith d) registered_prefixes"
  shows "parse_resim_data d =
           Unrecognized (ascii_replace (take 4 d)) (length d) (take 60 (hexlify d))
         \<and> (take 60 (hexlify d) = hexlify d) = (length d \<le> 30)"
  using assms unfolding not_registered
  by (simp add: parse_resim_data_def parse_body_chain length_hexlify)

theorem no_prefix_frame_unrecognized_witness:
  "2 \<le> length [0x58 :: byte, 0x59] \<and> \<not> list_ex (startswith [0x58, 0x59]) registered_prefixes
   \<and> parse_resim_data [0x58, 0x59] = Unrecognized (py_str ''XY'') 2 (py_str ''5859'')"
proof -
  have a: "2 \<le> length [0x58 :: byte, 0x59]" by simp
  have b: "\<not> list_ex (startswith [0x58, 0x59]) registered_prefixes"
    by (simp add: not_registered sw_eval)
  from no_prefix_frame_unrecognized [OF a b] a b show ?thesis
    by (simp add: ascii_replace_def hexlify_def hex_digit_def py_str_def)
qed

text \<open>
  The claim as stated fails on a frame of 31 bytes: the message carries 60 of the 62
  characters of its hex text.
\<close>

theorem long_frame_hex_truncated:
  "parse_resim_data
     [0x58, 0x59, 0, 0, 0, 0, 0, 0, 0, 0, 0, 0, 0, 0, 0, 0, 0, 0, 0, 0, 0, 0, 0, 0, 0, 0, 0, 0, 0, 0, 0] =
   Unrecognized [88, 89, 0, 0] 31
     (py_str ''585900000000000000000000000000000000000000000000000000000000'')
   \<and> hexlify
     [0x58, 0x59, 0, 0, 0, 0, 0, 0, 0, 0, 0, 0, 0, 0, 0, 0, 0, 0, 0, 0, 0, 0, 0, 0, 0, 0, 0, 0, 0, 0, 0] \<noteq>
     py_str ''585900000000000000000000000000000000000000000000000000000000''"
  by (simp add: parse_resim_data_def parse_body_chain sw_eval ascii_replace_def hexlify_def
      hex_digit_def py_str_def)

text \<open>
  C7. A frame that starts with \<open>"RL"\<close> and has at least 14 bytes is decoded as a lane
  change response: agent id, result and reason code are the little-endian 32-bit
  integers at bytes 2 to 6, 6 to 10 and 10 to 14, and the response reports success
  exactly when the result is 1. The fourteen bytes 52 4C 0A 00 00 00 01 00 00 00 00 00
  00 00 give agent 10, success, reason 0.
\<close>

theorem rl_frame_decoded:
  assumes "startswith d [0x52, 0x4C]" and "14 \<le> length d"
  shows "parse_resim_data d =
     LaneChangeResponse (le_int32 (slice d 2 6)) (le_int32 (slice d 6 10) = 1) (le_int32 (slice d 10 14))"
proof -
  from assms(1) have no: "\<not> startswith d [0x52, 0x53, 0x64]" "\<not> startswith d [0x54, 0x45, 0x53, 0x54, 0x5F]"
    "\<not> startswith d [0x41, 0x50]" "\<not> startswith d [0x41, 0x53]" "\<not> startswith d [0x54, 0x53]"
    "\<not> startswith d [0x54, 0x53, 0x50, 0x59]" "\<not> startswith d [0x53, 0x53]" "\<not> startswith d [0x43, 0x4C]"
    by (auto simp: startswith_Cons)
  show ?thesis
    using assms no by (simp add: parse_resim_data_def parse_body_chain parse_rl_def unpack_i_slice)
qed

theorem rl_frame_decoded_witness:
  "startswith [0x52, 0x4C, 0x0A, 0, 0, 0, 1, 0, 0, 0, 0, 0, 0, 0] [0x52, 0x4C]
   \<and> 14 \<le> length [0x52 :: byte, 0x4C, 0x0A, 0, 0, 0, 1, 0, 0, 0, 0, 0, 0, 0]
   \<and> parse_resim_data [0x52, 0x4C, 0x0A, 0, 0, 0, 1, 0, 0, 0, 0, 0, 0, 0] =
       LaneChangeResponse 10 True 0"
proof -
  have a: "startswith [0x52, 0x4C, 0x0A, 0, 0, 0, 1, 0, 0, 0, 0, 0, 0, 0] [0x52, 0x4C]"
    by (simp add: sw_eval)
  have b: "14 \<le> length [0x52 :: byte, 0x4C, 0x0A, 0, 0, 0, 1, 0, 0, 0, 0, 0, 0, 0]" by simp
  from rl_frame_decoded [OF a b] a b show ?thesis
    by (simp add: slice_def le_int32_def le_uint_def)
qed

section \<open>Statistics\<close>




text \<open>
  C10. For a datagram of at least 2 bytes the counted key is the first two bytes decoded
  as ASCII with replacement, whatever branch of the parser answers the frame: a frame
  that starts with \<open>"TSPY"\<close> is counted under \<open>"TS"\<close>, and a frame that starts with
  \<open>"RSd"\<close>, which the three-byte RSd branch answers, is counted under \<open>"RS"\<close>.
\<close>

theorem stats_key_is_first_two_bytes:
  assumes "2 \<le> length d"
  shows "command_counts (handle_datagram now port addr d st) =
           (command_counts st)(ascii_replace (take 2 d) \<mapsto>
              get_count (command_counts st) (ascii_replace (take 2 d)) + 1)
         \<and> (startswith d [0x54, 0x53, 0x50, 0x59] \<longrightarrow> ascii_replace (take 2 d) = py_str ''TS'')
         \<and> (startswith d [0x52, 0x53, 0x64] \<longrightarrow>
              ascii_replace (take 2 d) = py_str ''RS''
              \<and> parse_resim_data d =
                  (if length d = 3 then SyncSignal (py_str ''RSd'')
                   else VehicleState (py_str ''RSd'') (length d)))"
  using assms by (simp add: handle_datagram_command_counts rsd_key tspy_key rsd_frame)

theorem stats_key_is_first_two_bytes_witness:
  "2 \<le> length (ascii ''RSd'' @ ascii ''Agent data simulation'')
   \<and> startswith (ascii ''RSd'' @ ascii ''Agent data simulation'') [0x52, 0x53, 0x64]
   \<and> parse_resim_data (ascii ''RSd'' @ ascii ''Agent data simulation'') =
       VehicleState (py_str ''RSd'') 24
   \<and> command_counts (handle_datagram (5::nat) 20000 (7::nat)
         (ascii ''RSd'' @ ascii ''Agent data simulation'') initial_stats) (py_str ''RS'') = Some 1
   \<and> command_counts (handle_datagram (5::nat) 20000 (7::nat)
         (ascii ''RSd'' @ ascii ''Agent data simulation'') initial_stats) (py_str ''RSd'') = None
   \<and> 2 \<le> length (ascii ''TSPY'' @ int32_le 1 @ ascii ''Hi'')
   \<and> startswith (ascii ''TSPY'' @ int32_le 1 @ ascii ''Hi'') [0x54, 0x53, 0x50, 0x59]
   \<and> command_counts (handle_datagram (5::nat) 20000 (7::nat)
         (ascii ''TSPY'' @ int32_le 1 @ ascii ''Hi'') initial_stats) (py_str ''TS'') = Some 1
   \<and> command_counts (handle_datagram (5::nat) 20000 (7::nat)
         (ascii ''TSPY'' @ int32_le 1 @ ascii ''Hi'') initial_stats) (py_str ''TSPY'') = None"
proof -
  have a: "2 \<le> length (ascii ''RSd'' @ ascii ''Agent data simulation'')" by simp
  have b: "startswith (ascii ''RSd'' @ ascii ''Agent data simulation'') [0x52, 0x53, 0x64]"
    by (simp add: ascii_def sw_eval)
  have c: "ascii_replace (take 2 (ascii ''RSd'' @ ascii ''Agent data simulation'')) = py_str ''RS''"
    using b by (rule rsd_key)
  from stats_key_is_first_two_bytes [OF a, of "5::nat" 20000 "7::nat" initial_stats] a b
  have rsd: "parse_resim_data (ascii ''RSd'' @ ascii ''Agent data simulation'') =
       VehicleState (py_str ''RSd'') 24
     \<and> command_counts (handle_datagram (5::nat) 20000 (7::nat)
         (ascii ''RSd'' @ ascii ''Agent data simulation'') initial_stats) (py_str ''RS'') = Some 1
     \<and> command_counts (handle_datagram (5::nat) 20000 (7::nat)
         (ascii ''RSd'' @ ascii ''Agent data simulation'') initial_stats) (py_str ''RSd'') = None"
    unfolding c by (simp add: initial_stats_def get_count_def py_str_def)
  have a': "2 \<le> length (ascii ''TSPY'' @ int32_le 1 @ ascii ''Hi'')" by simp
  have b': "startswith (ascii ''TSPY'' @ int32_le 1 @ ascii ''Hi'') [0x54, 0x53, 0x50, 0x59]"
    by (simp add: ascii_def sw_eval)
  have c': "ascii_replace (take 2 (ascii ''TSPY'' @ int32_le 1 @ ascii ''Hi'')) = py_str ''TS''"
    using b' by (rule tspy_key)
  from stats_key_is_first_two_bytes [OF a', of "5::nat" 20000 "7::nat" initial_stats] a' b'
  have tspy: "command_counts (handle_datagram (5::nat) 20000 (7::nat)
         (ascii ''TSPY'' @ int32_le 1 @ ascii ''Hi'') initial_stats) (py_str ''TS'') = Some 1
     \<and> command_counts (handle_datagram (5::nat) 20000 (7::nat)
         (ascii ''TSPY'' @ int32_le 1 @ ascii ''Hi'') initial_stats) (py_str ''TSPY'') = None"
    unfolding c' by (simp add: initial_stats_def get_count_def py_str_def)
  from a b rsd a' b' tspy show ?thesis by simp
qed

end
